theory Spec2Isabelle
  imports Main
begin

section \<open>The bootstrap module \<open>server/xai/__init__.py\<close>\<close>

text \<open>
  The module is straight-line wiring: three \<open>from ... import ...\<close> statements, the
  construction of the Flask application, the wrapping of its WSGI entry point, the loading
  of the settings file, the binding of \<open>SETTINGS\<close>, the construction of the websocket
  extension and the import of the route module.

  Everything the statements call lives outside the module (flask, werkzeug, flask_sockets,
  the import system, \<open>xai.txtconv.route\<close>). Those operations are therefore parameters of
  the model (record \<open>extern\<close>): each takes the object store and either raises or returns a
  value and a new store. What the module itself does - which names it reads, which
  arguments it passes, which attribute it assigns, which names it binds, and in which
  order - is written out statement by statement.
\<close>

subsection \<open>Values, objects, the store\<close>

type_synonym ref = nat

text \<open>Values: references to objects, strings and truth values.\<close>

datatype val = Ref ref | Str string | Bool bool

text \<open>
  Exceptions. \<open>Raised\<close> carries the class name of an exception raised by external code.
\<close>

datatype error = NameError string | AttributeError string | KeyError string | Raised string

text \<open>
  An object has attributes (\<open>obj.name\<close>) and, when it is a mapping such as the
  configuration object, entries (\<open>obj[key]\<close>).
\<close>

record pyobj =
  attrs :: "string \<Rightarrow> val option"
  entries :: "string \<Rightarrow> val option"

type_synonym heap = "ref \<Rightarrow> pyobj option"

text \<open>
  What one run of the module body has done so far, in order: the external operations that
  returned (with their arguments and results) and the attribute assignments of the module
  itself.
\<close>

datatype event =
    ImportedFrom string string val
  | Called val "val list" "(string \<times> val) list" val
  | CalledMethod val string "val list" val
  | AttrSet val string val
  | Imported string val

text \<open>
  The state of the importing process as far as the module is concerned: the object store,
  the module's global namespace and the record of what has happened.
\<close>

record state =
  heap :: heap
  globals :: "string \<Rightarrow> val option"
  trace :: "event list"

subsection \<open>The external operations\<close>

text \<open>
  \<^item> \<open>import_from m n\<close>: \<open>from m import n\<close>, the object obtained;
  \<^item> \<open>import_module m\<close>: \<open>import m\<close> for a dotted name, the top-level package obtained;
  \<^item> \<open>call f args kwargs\<close>: calling the callable \<open>f\<close>;
  \<^item> \<open>call_method recv name args\<close>: calling the method \<open>name\<close> of \<open>recv\<close>.
\<close>

record extern =
  import_from :: "string \<Rightarrow> string \<Rightarrow> heap \<Rightarrow> error + val \<times> heap"
  import_module :: "string \<Rightarrow> heap \<Rightarrow> error + val \<times> heap"
  call :: "val \<Rightarrow> val list \<Rightarrow> (string \<times> val) list \<Rightarrow> heap \<Rightarrow> error + val \<times> heap"
  call_method :: "val \<Rightarrow> string \<Rightarrow> val list \<Rightarrow> heap \<Rightarrow> error + val \<times> heap"

subsection \<open>Python's own operations\<close>

definition bindE :: "error + 'a \<Rightarrow> ('a \<Rightarrow> error + 'b) \<Rightarrow> error + 'b" where
  "bindE m f = (case m of Inl e \<Rightarrow> Inl e | Inr x \<Rightarrow> f x)"

text \<open>Reading a global name; an unbound name raises NameError.\<close>

definition lookup :: "state \<Rightarrow> string \<Rightarrow> error + val" where
  "lookup s n = (case globals s n of None \<Rightarrow> Inl (NameError n) | Some v \<Rightarrow> Inr v)"

text \<open>\<open>v.n\<close>: a missing attribute (or a value without attributes) raises AttributeError.\<close>

definition getattr :: "heap \<Rightarrow> val \<Rightarrow> string \<Rightarrow> error + val" where
  "getattr h v n =
     (case v of
        Ref r \<Rightarrow>
          (case h r of
             None \<Rightarrow> Inl (AttributeError n)
           | Some ob \<Rightarrow>
               (case attrs ob n of None \<Rightarrow> Inl (AttributeError n) | Some x \<Rightarrow> Inr x))
      | _ \<Rightarrow> Inl (AttributeError n))"

text \<open>\<open>v.n = x\<close>.\<close>

definition setattr :: "heap \<Rightarrow> val \<Rightarrow> string \<Rightarrow> val \<Rightarrow> error + heap" where
  "setattr h v n x =
     (case v of
        Ref r \<Rightarrow>
          (case h r of
             None \<Rightarrow> Inl (AttributeError n)
           | Some ob \<Rightarrow> Inr (h(r \<mapsto> ob\<lparr>attrs := (attrs ob)(n \<mapsto> x)\<rparr>)))
      | _ \<Rightarrow> Inl (AttributeError n))"

text \<open>\<open>v[k]\<close> and \<open>v[k] = x\<close> on a mapping object.\<close>

definition getitem :: "heap \<Rightarrow> val \<Rightarrow> string \<Rightarrow> error + val" where
  "getitem h v k =
     (case v of
        Ref r \<Rightarrow>
          (case h r of
             None \<Rightarrow> Inl (KeyError k)
           | Some ob \<Rightarrow>
               (case entries ob k of None \<Rightarrow> Inl (KeyError k) | Some x \<Rightarrow> Inr x))
      | _ \<Rightarrow> Inl (Raised ''TypeError''))"

definition setitem :: "heap \<Rightarrow> val \<Rightarrow> string \<Rightarrow> val \<Rightarrow> error + heap" where
  "setitem h v k x =
     (case v of
        Ref r \<Rightarrow>
          (case h r of
             None \<Rightarrow> Inl (Raised ''TypeError'')
           | Some ob \<Rightarrow> Inr (h(r \<mapsto> ob\<lparr>entries := (entries ob)(k \<mapsto> x)\<rparr>)))
      | _ \<Rightarrow> Inl (Raised ''TypeError''))"


subsection \<open>The statements of the module\<close>

text \<open>Lines 1 to 3: \<open>from m import n\<close> binds the global \<open>n\<close>.\<close>

definition from_import :: "extern \<Rightarrow> string \<Rightarrow> string \<Rightarrow> state \<Rightarrow> error + state" where
  "from_import X m n s =
     bindE (import_from X m n (heap s)) (\<lambda>(v, h).
       Inr (s\<lparr>heap := h, globals := (globals s)(n \<mapsto> v),
              trace := trace s @ [ImportedFrom m n v]\<rparr>))"

text \<open>
  Line 6: \<open>app = Flask(__name__, static_url_path='/static', static_folder='static')\<close>.
\<close>

definition static_kwargs :: "(string \<times> val) list" where
  "static_kwargs = [(''static_url_path'', Str ''/static''), (''static_folder'', Str ''static'')]"

definition construct_app :: "extern \<Rightarrow> state \<Rightarrow> error + state" where
  "construct_app X s =
     bindE (lookup s ''Flask'') (\<lambda>f.
     bindE (lookup s ''__name__'') (\<lambda>n.
     bindE (call X f [n] static_kwargs (heap s)) (\<lambda>(a, h).
       Inr (s\<lparr>heap := h, globals := (globals s)(''app'' \<mapsto> a),
              trace := trace s @ [Called f [n] static_kwargs a]\<rparr>))))"

text \<open>
  Line 7: \<open>app.wsgi_app = ProxyFix(app.wsgi_app)\<close>. The right-hand side is evaluated
  first; the target \<open>app\<close> is read again for the assignment.
\<close>

definition wrap_wsgi_app :: "extern \<Rightarrow> state \<Rightarrow> error + state" where
  "wrap_wsgi_app X s =
     bindE (lookup s ''ProxyFix'') (\<lambda>p.
     bindE (lookup s ''app'') (\<lambda>a.
     bindE (getattr (heap s) a ''wsgi_app'') (\<lambda>w.
     bindE (call X p [w] [] (heap s)) (\<lambda>(m, h).
     bindE (lookup s ''app'') (\<lambda>a'.
     bindE (setattr h a' ''wsgi_app'' m) (\<lambda>h'.
       Inr (s\<lparr>heap := h',
              trace := trace s @ [Called p [w] [] m, AttrSet a' ''wsgi_app'' m]\<rparr>)))))))"

text \<open>Line 8: \<open>app.config.from_pyfile('../settings.py')\<close>; the result is discarded.\<close>

definition load_config :: "extern \<Rightarrow> state \<Rightarrow> error + state" where
  "load_config X s =
     bindE (lookup s ''app'') (\<lambda>a.
     bindE (getattr (heap s) a ''config'') (\<lambda>c.
     bindE (call_method X c ''from_pyfile'' [Str ''../settings.py''] (heap s)) (\<lambda>(r, h).
       Inr (s\<lparr>heap := h,
              trace := trace s @ [CalledMethod c ''from_pyfile'' [Str ''../settings.py''] r]\<rparr>))))"

text \<open>Line 9: \<open>SETTINGS = app.config\<close>.\<close>

definition bind_SETTINGS :: "state \<Rightarrow> error + state" where
  "bind_SETTINGS s =
     bindE (lookup s ''app'') (\<lambda>a.
     bindE (getattr (heap s) a ''config'') (\<lambda>c.
       Inr (s\<lparr>globals := (globals s)(''SETTINGS'' \<mapsto> c)\<rparr>)))"

text \<open>Line 11: \<open>sockets = Sockets(app)\<close>.\<close>

definition make_sockets :: "extern \<Rightarrow> state \<Rightarrow> error + state" where
  "make_sockets X s =
     bindE (lookup s ''Sockets'') (\<lambda>k.
     bindE (lookup s ''app'') (\<lambda>a.
     bindE (call X k [a] [] (heap s)) (\<lambda>(v, h).
       Inr (s\<lparr>heap := h, globals := (globals s)(''sockets'' \<mapsto> v),
              trace := trace s @ [Called k [a] [] v]\<rparr>))))"

text \<open>
  Line 13: \<open>import xai.txtconv.route\<close>. The statement binds the top-level package name
  \<open>xai\<close>.
\<close>

definition import_route :: "extern \<Rightarrow> state \<Rightarrow> error + state" where
  "import_route X s =
     bindE (import_module X ''xai.txtconv.route'' (heap s)) (\<lambda>(top, h).
       Inr (s\<lparr>heap := h, globals := (globals s)(''xai'' \<mapsto> top),
              trace := trace s @ [Imported ''xai.txtconv.route'' top]\<rparr>))"

subsection \<open>The module body\<close>

text \<open>Statements run in order; the first exception ends the run.\<close>

fun run :: "(state \<Rightarrow> error + state) list \<Rightarrow> state \<Rightarrow> error + state" where
  "run [] s = Inr s"
| "run (c # cs) s = bindE (c s) (run cs)"

text \<open>
  Line 4 (\<open># from pymongo import MongoClient\<close>) is a comment and lines 5, 10 and 12
  are blank: they are no statements.
\<close>

definition module_body :: "extern \<Rightarrow> (state \<Rightarrow> error + state) list" where
  "module_body X =
     [from_import X ''werkzeug.contrib.fixers'' ''ProxyFix'',
      from_import X ''flask'' ''Flask'',
      from_import X ''flask_sockets'' ''Sockets'',
      construct_app X,
      wrap_wsgi_app X,
      load_config X,
      bind_SETTINGS,
      make_sockets X,
      import_route X]"

text \<open>
  Importing the module runs its body in a fresh namespace in which the import system has
  set \<open>__name__\<close> (the only predefined name the body reads).
\<close>

definition initial_state :: "string \<Rightarrow> heap \<Rightarrow> state" where
  "initial_state name h = \<lparr>heap = h, globals = [''__name__'' \<mapsto> Str name], trace = []\<rparr>"

definition import_xai :: "extern \<Rightarrow> string \<Rightarrow> heap \<Rightarrow> error + state" where
  "import_xai X name h = run (module_body X) (initial_state name h)"

subsection \<open>Reading and updating settings through the two names\<close>

text \<open>
  What code running after the import does when it evaluates \<open>SETTINGS[k]\<close>,
  \<open>app.config[k]\<close>, \<open>SETTINGS[k] = x\<close> and \<open>app.config[k] = x\<close> in the module's
  namespace.
\<close>

definition SETTINGS_get :: "state \<Rightarrow> string \<Rightarrow> error + val" where
  "SETTINGS_get s k = bindE (lookup s ''SETTINGS'') (\<lambda>c. getitem (heap s) c k)"

definition app_config_get :: "state \<Rightarrow> string \<Rightarrow> error + val" where
  "app_config_get s k =
     bindE (lookup s ''app'') (\<lambda>a.
     bindE (getattr (heap s) a ''config'') (\<lambda>c. getitem (heap s) c k))"

definition SETTINGS_set :: "state \<Rightarrow> string \<Rightarrow> val \<Rightarrow> error + state" where
  "SETTINGS_set s k x =
     bindE (lookup s ''SETTINGS'') (\<lambda>c.
     bindE (setitem (heap s) c k x) (\<lambda>h. Inr (s\<lparr>heap := h\<rparr>)))"

definition app_config_set :: "state \<Rightarrow> string \<Rightarrow> val \<Rightarrow> error + state" where
  "app_config_set s k x =
     bindE (lookup s ''app'') (\<lambda>a.
     bindE (getattr (heap s) a ''config'') (\<lambda>c.
     bindE (setitem (heap s) c k x) (\<lambda>h. Inr (s\<lparr>heap := h\<rparr>))))"

subsection \<open>Reading the trace and the file name\<close>





subsection \<open>Conditions on external operations\<close>

text \<open>
  An operation \<open>f\<close> (a store transformer that may raise) leaves attribute \<open>n\<close> of the
  object \<open>a\<close>, respectively the entries of the mapping \<open>c\<close>, as they are.
\<close>

definition keeps_attr :: "(heap \<Rightarrow> error + val \<times> heap) \<Rightarrow> val \<Rightarrow> string \<Rightarrow> bool" where
  "keeps_attr f a n = (\<forall>h v h'. f h = Inr (v, h') \<longrightarrow> getattr h' a n = getattr h a n)"




subsection \<open>A sample environment\<close>

text \<open>
  An environment on which the module can be run: the three classes are the objects 1, 2
  and 3; the constructors allocate at fixed addresses; the settings file holds two pairs;
  the route module imports without touching anything.
\<close>

definition demo_settings :: "string \<Rightarrow> val option" where
  "demo_settings = [''DEBUG'' \<mapsto> Bool True, ''SECRET_KEY'' \<mapsto> Str ''dev'']"

definition empty_obj :: pyobj where
  "empty_obj = \<lparr>attrs = Map.empty, entries = Map.empty\<rparr>"

definition demo_import_from :: "string \<Rightarrow> string \<Rightarrow> heap \<Rightarrow> error + val \<times> heap" where
  "demo_import_from m n h =
     (if m = ''werkzeug.contrib.fixers'' \<and> n = ''ProxyFix'' then Inr (Ref 1, h)
      else if m = ''flask'' \<and> n = ''Flask'' then Inr (Ref 2, h)
      else if m = ''flask_sockets'' \<and> n = ''Sockets'' then Inr (Ref 3, h)
      else Inl (Raised ''ImportError''))"

definition demo_call ::
  "val \<Rightarrow> val list \<Rightarrow> (string \<times> val) list \<Rightarrow> heap \<Rightarrow> error + val \<times> heap" where
  "demo_call f args kw h =
     (if f = Ref 2 then
        Inr (Ref 10,
             h(10 \<mapsto> \<lparr>attrs = (map_of kw)(''wsgi_app'' \<mapsto> Ref 11, ''config'' \<mapsto> Ref 12),
                      entries = Map.empty\<rparr>,
               11 \<mapsto> empty_obj, 12 \<mapsto> empty_obj))
      else if f = Ref 1 then
        (case args of
           [w] \<Rightarrow> Inr (Ref 13, h(13 \<mapsto> \<lparr>attrs = [''app'' \<mapsto> w], entries = Map.empty\<rparr>))
         | _ \<Rightarrow> Inl (Raised ''TypeError''))
      else if f = Ref 3 then
        (case args of
           [a] \<Rightarrow> Inr (Ref 14, h(14 \<mapsto> \<lparr>attrs = [''app'' \<mapsto> a], entries = Map.empty\<rparr>))
         | _ \<Rightarrow> Inl (Raised ''TypeError''))
      else Inl (Raised ''TypeError''))"

definition demo_call_method ::
  "val \<Rightarrow> string \<Rightarrow> val list \<Rightarrow> heap \<Rightarrow> error + val \<times> heap" where
  "demo_call_method recv name args h =
     (if name = ''from_pyfile'' then
        (if args = [Str ''../settings.py''] then
           (case recv of
              Ref r \<Rightarrow>
                (case h r of
                   None \<Rightarrow> Inl (Raised ''TypeError'')
                 | Some ob \<Rightarrow>
                     Inr (Bool True, h(r \<mapsto> ob\<lparr>entries := entries ob ++ demo_settings\<rparr>)))
            | _ \<Rightarrow> Inl (Raised ''TypeError''))
         else Inl (Raised ''IOError''))
      else Inl (Raised ''AttributeError''))"

definition demo_import_module :: "string \<Rightarrow> heap \<Rightarrow> error + val \<times> heap" where
  "demo_import_module m h =
     (if m = ''xai.txtconv.route'' then Inr (Ref 20, h(20 \<mapsto> empty_obj))
      else Inl (Raised ''ImportError''))"

definition demo :: extern where
  "demo = \<lparr>import_from = demo_import_from, import_module = demo_import_module,
           call = demo_call, call_method = demo_call_method\<rparr>"

definition demo_state :: state where
  "demo_state =
     (case import_xai demo ''xai'' Map.empty of
        Inr s \<Rightarrow> s
      | Inl e \<Rightarrow> initial_state ''xai'' Map.empty)"


section \<open>Basic facts\<close>

lemmas demo_defs = demo_def demo_import_from_def demo_call_def demo_call_method_def
  demo_import_module_def demo_settings_def empty_obj_def

lemmas body_defs = import_xai_def module_body_def initial_state_def from_import_def
  construct_app_def wrap_wsgi_app_def load_config_def bind_SETTINGS_def make_sockets_def
  import_route_def lookup_def getattr_def setattr_def bindE_def static_kwargs_def

lemma bindE_Inr: "bindE m f = Inr y \<longleftrightarrow> (\<exists>x. m = Inr x \<and> f x = Inr y)"
  by (cases m) (simp_all add: bindE_def)


lemma lookup_Inr: "lookup s n = Inr v \<longleftrightarrow> globals s n = Some v"
  by (simp add: lookup_def split: option.splits)

lemma run_Cons_Inr: "run (c # cs) s = Inr s' \<longleftrightarrow> (\<exists>t. c s = Inr t \<and> run cs t = Inr s')"
  by (simp add: bindE_Inr)



subsection \<open>The statements, one by one\<close>

lemma from_import_Inr:
  "from_import X m n s = Inr s' \<longleftrightarrow>
     (\<exists>v h. import_from X m n (heap s) = Inr (v, h) \<and>
        s' = s\<lparr>heap := h, globals := (globals s)(n \<mapsto> v),
               trace := trace s @ [ImportedFrom m n v]\<rparr>)"
  by (auto simp: from_import_def bindE_Inr)

lemma construct_app_Inr:
  "construct_app X s = Inr s' \<longleftrightarrow>
     (\<exists>f n a h. globals s ''Flask'' = Some f \<and> globals s ''__name__'' = Some n \<and>
        call X f [n] static_kwargs (heap s) = Inr (a, h) \<and>
        s' = s\<lparr>heap := h, globals := (globals s)(''app'' \<mapsto> a),
               trace := trace s @ [Called f [n] static_kwargs a]\<rparr>)"
  by (auto simp: construct_app_def bindE_Inr lookup_Inr)

lemma wrap_wsgi_app_Inr:
  "wrap_wsgi_app X s = Inr s' \<longleftrightarrow>
     (\<exists>p a w m h h'. globals s ''ProxyFix'' = Some p \<and> globals s ''app'' = Some a \<and>
        getattr (heap s) a ''wsgi_app'' = Inr w \<and> call X p [w] [] (heap s) = Inr (m, h) \<and>
        setattr h a ''wsgi_app'' m = Inr h' \<and>
        s' = s\<lparr>heap := h',
               trace := trace s @ [Called p [w] [] m, AttrSet a ''wsgi_app'' m]\<rparr>)"
  by (auto simp: wrap_wsgi_app_def bindE_Inr lookup_Inr)

lemma load_config_Inr:
  "load_config X s = Inr s' \<longleftrightarrow>
     (\<exists>a c r h. globals s ''app'' = Some a \<and> getattr (heap s) a ''config'' = Inr c \<and>
        call_method X c ''from_pyfile'' [Str ''../settings.py''] (heap s) = Inr (r, h) \<and>
        s' = s\<lparr>heap := h,
               trace := trace s @ [CalledMethod c ''from_pyfile'' [Str ''../settings.py''] r]\<rparr>)"
  by (auto simp: load_config_def bindE_Inr lookup_Inr)

lemma bind_SETTINGS_Inr:
  "bind_SETTINGS s = Inr s' \<longleftrightarrow>
     (\<exists>a c. globals s ''app'' = Some a \<and> getattr (heap s) a ''config'' = Inr c \<and>
        s' = s\<lparr>globals := (globals s)(''SETTINGS'' \<mapsto> c)\<rparr>)"
  by (auto simp: bind_SETTINGS_def bindE_Inr lookup_Inr)

lemma make_sockets_Inr:
  "make_sockets X s = Inr s' \<longleftrightarrow>
     (\<exists>k a v h. globals s ''Sockets'' = Some k \<and> globals s ''app'' = Some a \<and>
        call X k [a] [] (heap s) = Inr (v, h) \<and>
        s' = s\<lparr>heap := h, globals := (globals s)(''sockets'' \<mapsto> v),
               trace := trace s @ [Called k [a] [] v]\<rparr>)"
  by (auto simp: make_sockets_def bindE_Inr lookup_Inr)

lemma import_route_Inr:
  "import_route X s = Inr s' \<longleftrightarrow>
     (\<exists>top h. import_module X ''xai.txtconv.route'' (heap s) = Inr (top, h) \<and>
        s' = s\<lparr>heap := h, globals := (globals s)(''xai'' \<mapsto> top),
               trace := trace s @ [Imported ''xai.txtconv.route'' top]\<rparr>)"
  by (auto simp: import_route_def bindE_Inr)

subsection \<open>A successful import, spelled out\<close>

text \<open>
  When the import returns, every external operation returned, each on the store its
  predecessor left, and the final state is as follows. \<open>h4\<close> is the store as the Flask
  constructor left it, \<open>h6\<close> the store after the assignment to \<open>app.wsgi_app\<close>,
  \<open>h7\<close> the store after the settings were loaded, \<open>h8\<close> the store on which the route
  module is imported.
\<close>

lemma import_xai_Inr:
  assumes "import_xai X name h0 = Inr s"
  shows "\<exists>p h1 f h2 k h3 a h4 w m h5 h6 c r h7 c' sk h8 top h9.
    import_from X ''werkzeug.contrib.fixers'' ''ProxyFix'' h0 = Inr (p, h1) \<and>
    import_from X ''flask'' ''Flask'' h1 = Inr (f, h2) \<and>
    import_from X ''flask_sockets'' ''Sockets'' h2 = Inr (k, h3) \<and>
    call X f [Str name] static_kwargs h3 = Inr (a, h4) \<and>
    getattr h4 a ''wsgi_app'' = Inr w \<and>
    call X p [w] [] h4 = Inr (m, h5) \<and>
    setattr h5 a ''wsgi_app'' m = Inr h6 \<and>
    getattr h6 a ''config'' = Inr c \<and>
    call_method X c ''from_pyfile'' [Str ''../settings.py''] h6 = Inr (r, h7) \<and>
    getattr h7 a ''config'' = Inr c' \<and>
    call X k [a] [] h7 = Inr (sk, h8) \<and>
    import_module X ''xai.txtconv.route'' h8 = Inr (top, h9) \<and>
    run (butlast (module_body X)) (initial_state name h0) =
      Inr \<lparr>heap = h8,
           globals = [''__name__'' \<mapsto> Str name, ''ProxyFix'' \<mapsto> p, ''Flask'' \<mapsto> f,
                      ''Sockets'' \<mapsto> k, ''app'' \<mapsto> a, ''SETTINGS'' \<mapsto> c',
                      ''sockets'' \<mapsto> sk],
           trace = [ImportedFrom ''werkzeug.contrib.fixers'' ''ProxyFix'' p,
                    ImportedFrom ''flask'' ''Flask'' f,
                    ImportedFrom ''flask_sockets'' ''Sockets'' k,
                    Called f [Str name] static_kwargs a,
                    Called p [w] [] m,
                    AttrSet a ''wsgi_app'' m,
                    CalledMethod c ''from_pyfile'' [Str ''../settings.py''] r,
                    Called k [a] [] sk]\<rparr> \<and>
    s = \<lparr>heap = h9,
         globals = [''__name__'' \<mapsto> Str name, ''ProxyFix'' \<mapsto> p, ''Flask'' \<mapsto> f,
                    ''Sockets'' \<mapsto> k, ''app'' \<mapsto> a, ''SETTINGS'' \<mapsto> c',
                    ''sockets'' \<mapsto> sk, ''xai'' \<mapsto> top],
         trace = [ImportedFrom ''werkzeug.contrib.fixers'' ''ProxyFix'' p,
                  ImportedFrom ''flask'' ''Flask'' f,
                  ImportedFrom ''flask_sockets'' ''Sockets'' k,
                  Called f [Str name] static_kwargs a,
                  Called p [w] [] m,
                  AttrSet a ''wsgi_app'' m,
                  CalledMethod c ''from_pyfile'' [Str ''../settings.py''] r,
                  Called k [a] [] sk,
                  Imported ''xai.txtconv.route'' top]\<rparr>"
proof -
  let ?s0 = "initial_state name h0"
  from assms obtain s1 s2 s3 s4 s5 s6 s7 s8 where
    e1: "from_import X ''werkzeug.contrib.fixers'' ''ProxyFix'' ?s0 = Inr s1" and
    e2: "from_import X ''flask'' ''Flask'' s1 = Inr s2" and
    e3: "from_import X ''flask_sockets'' ''Sockets'' s2 = Inr s3" and
    e4: "construct_app X s3 = Inr s4" and
    e5: "wrap_wsgi_app X s4 = Inr s5" and
    e6: "load_config X s5 = Inr s6" and
    e7: "bind_SETTINGS s6 = Inr s7" and
    e8: "make_sockets X s7 = Inr s8" and
    e9: "import_route X s8 = Inr s"
    unfolding import_xai_def module_body_def run_Cons_Inr by auto
  have pre: "run (butlast (module_body X)) ?s0 = Inr s8"
    unfolding module_body_def using e1 e2 e3 e4 e5 e6 e7 e8 by (simp add: bindE_def)
  from e1 obtain p h1 where
    i1: "import_from X ''werkzeug.contrib.fixers'' ''ProxyFix'' h0 = Inr (p, h1)" and
    s1: "s1 = \<lparr>heap = h1, globals = [''__name__'' \<mapsto> Str name, ''ProxyFix'' \<mapsto> p],
              trace = [ImportedFrom ''werkzeug.contrib.fixers'' ''ProxyFix'' p]\<rparr>"
    by (auto simp: from_import_Inr initial_state_def)
  from e2 obtain f h2 where
    i2: "import_from X ''flask'' ''Flask'' h1 = Inr (f, h2)" and
    s2: "s2 = \<lparr>heap = h2,
              globals = [''__name__'' \<mapsto> Str name, ''ProxyFix'' \<mapsto> p, ''Flask'' \<mapsto> f],
              trace = [ImportedFrom ''werkzeug.contrib.fixers'' ''ProxyFix'' p,
                       ImportedFrom ''flask'' ''Flask'' f]\<rparr>"
    unfolding s1 by (auto simp: from_import_Inr)
  from e3 obtain k h3 where
    i3: "import_from X ''flask_sockets'' ''Sockets'' h2 = Inr (k, h3)" and
    s3: "s3 = \<lparr>heap = h3,
              globals = [''__name__'' \<mapsto> Str name, ''ProxyFix'' \<mapsto> p, ''Flask'' \<mapsto> f,
                         ''Sockets'' \<mapsto> k],
              trace = [ImportedFrom ''werkzeug.contrib.fixers'' ''ProxyFix'' p,
                       ImportedFrom ''flask'' ''Flask'' f,
                       ImportedFrom ''flask_sockets'' ''Sockets'' k]\<rparr>"
    unfolding s2 by (auto simp: from_import_Inr)
  from e4 obtain a h4 where
    i4: "call X f [Str name] static_kwargs h3 = Inr (a, h4)" and
    s4: "s4 = \<lparr>heap = h4,
              globals = [''__name__'' \<mapsto> Str name, ''ProxyFix'' \<mapsto> p, ''Flask'' \<mapsto> f,
                         ''Sockets'' \<mapsto> k, ''app'' \<mapsto> a],
              trace = [ImportedFrom ''werkzeug.contrib.fixers'' ''ProxyFix'' p,
                       ImportedFrom ''flask'' ''Flask'' f,
                       ImportedFrom ''flask_sockets'' ''Sockets'' k,
                       Called f [Str name] static_kwargs a]\<rparr>"
    unfolding s3 by (auto simp: construct_app_Inr)
  from e5 obtain w m h5 h6 where
    i5: "getattr h4 a ''wsgi_app'' = Inr w" "call X p [w] [] h4 = Inr (m, h5)"
        "setattr h5 a ''wsgi_app'' m = Inr h6" and
    s5: "s5 = \<lparr>heap = h6,
              globals = [''__name__'' \<mapsto> Str name, ''ProxyFix'' \<mapsto> p, ''Flask'' \<mapsto> f,
                         ''Sockets'' \<mapsto> k, ''app'' \<mapsto> a],
              trace = [ImportedFrom ''werkzeug.contrib.fixers'' ''ProxyFix'' p,
                       ImportedFrom ''flask'' ''Flask'' f,
                       ImportedFrom ''flask_sockets'' ''Sockets'' k,
                       Called f [Str name] static_kwargs a,
                       Called p [w] [] m,
                       AttrSet a ''wsgi_app'' m]\<rparr>"
    unfolding s4 by (auto simp: wrap_wsgi_app_Inr)
  from e6 obtain c r h7 where
    i6: "getattr h6 a ''config'' = Inr c"
        "call_method X c ''from_pyfile'' [Str ''../settings.py''] h6 = Inr (r, h7)" and
    s6: "s6 = \<lparr>heap = h7,
              globals = [''__name__'' \<mapsto> Str name, ''ProxyFix'' \<mapsto> p, ''Flask'' \<mapsto> f,
                         ''Sockets'' \<mapsto> k, ''app'' \<mapsto> a],
              trace = [ImportedFrom ''werkzeug.contrib.fixers'' ''ProxyFix'' p,
                       ImportedFrom ''flask'' ''Flask'' f,
                       ImportedFrom ''flask_sockets'' ''Sockets'' k,
                       Called f [Str name] static_kwargs a,
                       Called p [w] [] m,
                       AttrSet a ''wsgi_app'' m,
                       CalledMethod c ''from_pyfile'' [Str ''../settings.py''] r]\<rparr>"
    unfolding s5 by (auto simp: load_config_Inr)
  from e7 obtain c' where
    i7: "getattr h7 a ''config'' = Inr c'" and
    s7: "s7 = \<lparr>heap = h7,
              globals = [''__name__'' \<mapsto> Str name, ''ProxyFix'' \<mapsto> p, ''Flask'' \<mapsto> f,
                         ''Sockets'' \<mapsto> k, ''app'' \<mapsto> a, ''SETTINGS'' \<mapsto> c'],
              trace = [ImportedFrom ''werkzeug.contrib.fixers'' ''ProxyFix'' p,
                       ImportedFrom ''flask'' ''Flask'' f,
                       ImportedFrom ''flask_sockets'' ''Sockets'' k,
                       Called f [Str name] static_kwargs a,
                       Called p [w] [] m,
                       AttrSet a ''wsgi_app'' m,
                       CalledMethod c ''from_pyfile'' [Str ''../settings.py''] r]\<rparr>"
    unfolding s6 by (auto simp: bind_SETTINGS_Inr)
  from e8 obtain sk h8 where
    i8: "call X k [a] [] h7 = Inr (sk, h8)" and
    s8: "s8 = \<lparr>heap = h8,
              globals = [''__name__'' \<mapsto> Str name, ''ProxyFix'' \<mapsto> p, ''Flask'' \<mapsto> f,
                         ''Sockets'' \<mapsto> k, ''app'' \<mapsto> a, ''SETTINGS'' \<mapsto> c',
                         ''sockets'' \<mapsto> sk],
              trace = [ImportedFrom ''werkzeug.contrib.fixers'' ''ProxyFix'' p,
                       ImportedFrom ''flask'' ''Flask'' f,
                       ImportedFrom ''flask_sockets'' ''Sockets'' k,
                       Called f [Str name] static_kwargs a,
                       Called p [w] [] m,
                       AttrSet a ''wsgi_app'' m,
                       CalledMethod c ''from_pyfile'' [Str ''../settings.py''] r,
                       Called k [a] [] sk]\<rparr>"
    unfolding s7 by (auto simp: make_sockets_Inr)
  from e9 obtain top h9 where
    i9: "import_module X ''xai.txtconv.route'' h8 = Inr (top, h9)" and
    s9: "s = \<lparr>heap = h9,
             globals = [''__name__'' \<mapsto> Str name, ''ProxyFix'' \<mapsto> p, ''Flask'' \<mapsto> f,
                        ''Sockets'' \<mapsto> k, ''app'' \<mapsto> a, ''SETTINGS'' \<mapsto> c',
                        ''sockets'' \<mapsto> sk, ''xai'' \<mapsto> top],
             trace = [ImportedFrom ''werkzeug.contrib.fixers'' ''ProxyFix'' p,
                      ImportedFrom ''flask'' ''Flask'' f,
                      ImportedFrom ''flask_sockets'' ''Sockets'' k,
                      Called f [Str name] static_kwargs a,
                      Called p [w] [] m,
                      AttrSet a ''wsgi_app'' m,
                      CalledMethod c ''from_pyfile'' [Str ''../settings.py''] r,
                      Called k [a] [] sk,
                      Imported ''xai.txtconv.route'' top]\<rparr>"
    unfolding s8 by (auto simp: import_route_Inr)
  from i1 i2 i3 i4 i5 i6 i7 i8 i9 s9 pre[unfolded s8] show ?thesis by blast
qed

subsection \<open>The sample environment\<close>

lemma demo_run: "import_xai demo ''xai'' Map.empty = Inr demo_state"
  by (simp add: demo_state_def body_defs demo_defs)

lemma demo_globals:
  "globals demo_state ''app'' = Some (Ref 10)"
  "globals demo_state ''SETTINGS'' = Some (Ref 12)"
  "globals demo_state ''sockets'' = Some (Ref 14)"
  "globals demo_state ''Sockets'' = Some (Ref 3)"
  by (simp_all add: demo_state_def body_defs demo_defs)


lemma demo_keeps_attr:
  "keeps_attr (call_method demo c ''from_pyfile'' [Str ''../settings.py'']) a n"
  "keeps_attr (call demo (Ref 3) [b] []) (Ref 10) n"
  "keeps_attr (import_module demo ''xai.txtconv.route'') (Ref 10) n"
  by (auto simp: keeps_attr_def demo_def demo_call_method_def demo_call_def
      demo_import_module_def getattr_def split: val.splits option.splits if_splits)


section \<open>Properties of the module initialization\<close>



text \<open>
  C2. After module initialization the application object exists and is configured with the
  static URL prefix \<open>/static\<close> and the static directory \<open>static\<close>: the global \<open>app\<close>
  is bound to the object the class imported as \<open>Flask\<close> from \<open>flask\<close> returned when
  called with the module's name and the keyword arguments
  \<open>static_url_path='/static'\<close>, \<open>static_folder='static'\<close>.
\<close>

theorem app_constructed_with_static_settings:
  assumes "import_xai X name h0 = Inr s"
  shows "\<exists>f a h h' hi hi'.
           import_from X ''flask'' ''Flask'' hi = Inr (f, hi') \<and>
           globals s ''Flask'' = Some f \<and>
           call X f [Str name]
             [(''static_url_path'', Str ''/static''), (''static_folder'', Str ''static'')] h
             = Inr (a, h') \<and>
           globals s ''app'' = Some a"
proof -
  from import_xai_Inr[OF assms] obtain f h1 h2 a h3 h4 h9 g t where
    "import_from X ''flask'' ''Flask'' h1 = Inr (f, h2)"
    "call X f [Str name] static_kwargs h3 = Inr (a, h4)"
    "s = \<lparr>heap = h9, globals = g, trace = t\<rparr>" "g ''Flask'' = Some f" "g ''app'' = Some a"
    by (elim exE conjE) (rule that, assumption+, simp_all)
  then show ?thesis unfolding static_kwargs_def by auto
qed

theorem app_constructed_with_static_settings_witness:
  "import_xai demo ''xai'' Map.empty = Inr demo_state \<and>
   (\<exists>f a h h' hi hi'.
      import_from demo ''flask'' ''Flask'' hi = Inr (f, hi') \<and>
      globals demo_state ''Flask'' = Some f \<and>
      call demo f [Str ''xai'']
        [(''static_url_path'', Str ''/static''), (''static_folder'', Str ''static'')] h
        = Inr (a, h') \<and>
      globals demo_state ''app'' = Some a)"
  using app_constructed_with_static_settings[OF demo_run] demo_run by blast







subsection \<open>A failing import\<close>















subsection \<open>Entries and attributes under an update of the entries\<close>

lemma getitem_setitem:
  assumes "setitem h c k x = Inr h'"
  shows "getitem h' c k = Inr x"
  using assms by (auto simp: setitem_def getitem_def split: val.splits option.splits)

lemma getattr_setitem:
  assumes "setitem h c k x = Inr h'"
  shows "getattr h' b n = getattr h b n"
  using assms
  by (auto simp: setitem_def getattr_def split: val.splits option.splits if_splits)








text \<open>
  C10. \<open>SETTINGS\<close> is the very object that \<open>app.config\<close> is, not a copy: the name is
  bound to the value read from \<open>app.config\<close> in the store the settings load returned.
  As long as nothing rebinds \<open>app.config\<close> (here: neither the extension's constructor
  nor the route import), reading a key through either name gives the same result, an
  update through either name is the same update, and after it both names show the new
  value.
\<close>

theorem SETTINGS_is_app_config:
  assumes "import_xai X name h0 = Inr s"
  shows "\<exists>a k c hb.
           globals s ''app'' = Some a \<and> globals s ''Sockets'' = Some k \<and>
           globals s ''SETTINGS'' = Some c \<and>
           (\<exists>c0 r h. call_method X c0 ''from_pyfile'' [Str ''../settings.py''] h
              = Inr (r, hb)) \<and>
           getattr hb a ''config'' = Inr c \<and>
           (keeps_attr (call X k [a] []) a ''config'' \<and>
            keeps_attr (import_module X ''xai.txtconv.route'') a ''config'' \<longrightarrow>
              getattr (heap s) a ''config'' = Inr c \<and>
              (\<forall>key. SETTINGS_get s key = app_config_get s key) \<and>
              (\<forall>key x. SETTINGS_set s key x = app_config_set s key x) \<and>
              (\<forall>key x s'. SETTINGS_set s key x = Inr s' \<longrightarrow>
                 SETTINGS_get s' key = Inr x \<and> app_config_get s' key = Inr x))"
proof -
  from import_xai_Inr[OF assms]
  obtain k a c0 r h6 h7 c sk h8 top h9 g t where
    ld: "call_method X c0 ''from_pyfile'' [Str ''../settings.py''] h6 = Inr (r, h7)" and
    cf: "getattr h7 a ''config'' = Inr c" and
    so: "call X k [a] [] h7 = Inr (sk, h8)" and
    im: "import_module X ''xai.txtconv.route'' h8 = Inr (top, h9)" and
    s: "s = \<lparr>heap = h9, globals = g, trace = t\<rparr>" and
    g: "g ''app'' = Some a" "g ''Sockets'' = Some k" "g ''SETTINGS'' = Some c"
    by (elim exE conjE) (rule that, assumption+, simp_all)
  have fin: "getattr (heap s) a ''config'' = Inr c \<and>
      (\<forall>key. SETTINGS_get s key = app_config_get s key) \<and>
      (\<forall>key x. SETTINGS_set s key x = app_config_set s key x) \<and>
      (\<forall>key x s'. SETTINGS_set s key x = Inr s' \<longrightarrow>
         SETTINGS_get s' key = Inr x \<and> app_config_get s' key = Inr x)"
    if k1: "keeps_attr (call X k [a] []) a ''config''"
      and k2: "keeps_attr (import_module X ''xai.txtconv.route'') a ''config''"
  proof -
    from k1 so have "getattr h8 a ''config'' = getattr h7 a ''config''"
      unfolding keeps_attr_def by blast
    moreover from k2 im have "getattr h9 a ''config'' = getattr h8 a ''config''"
      unfolding keeps_attr_def by blast
    ultimately have e: "getattr h9 a ''config'' = Inr c" using cf by simp
    have rd: "SETTINGS_get s key = app_config_get s key" for key
      by (simp add: SETTINGS_get_def app_config_get_def lookup_def bindE_def s g e)
    have wr: "SETTINGS_set s key x = app_config_set s key x" for key x
      by (simp add: SETTINGS_set_def app_config_set_def lookup_def bindE_def s g e)
    have vis: "SETTINGS_get s' key = Inr x \<and> app_config_get s' key = Inr x"
      if "SETTINGS_set s key x = Inr s'" for key x s'
    proof -
      from that obtain h' where
        si: "setitem h9 c key x = Inr h'" and s': "s' = s\<lparr>heap := h'\<rparr>"
        by (auto simp: SETTINGS_set_def lookup_def bindE_Inr s g)
      from si have gi: "getitem h' c key = Inr x" by (rule getitem_setitem)
      from si have "getattr h' a ''config'' = getattr h9 a ''config''"
        by (rule getattr_setitem)
      with e have ga: "getattr h' a ''config'' = Inr c" by simp
      show ?thesis
        by (simp add: SETTINGS_get_def app_config_get_def lookup_def bindE_def s' s g gi ga)
    qed
    from e rd wr vis show ?thesis using s by simp
  qed
  from ld have ld': "\<exists>c0 r h. call_method X c0 ''from_pyfile'' [Str ''../settings.py''] h
      = Inr (r, h7)" by blast
  show ?thesis
    apply (rule exI[of _ a], rule exI[of _ k], rule exI[of _ c], rule exI[of _ h7])
    using ld' cf fin s g by simp
qed

theorem SETTINGS_is_app_config_witness:
  "import_xai demo ''xai'' Map.empty = Inr demo_state \<and>
   globals demo_state ''SETTINGS'' = Some (Ref 12) \<and>
   getattr (heap demo_state) (Ref 10) ''config'' = Inr (Ref 12) \<and>
   SETTINGS_get demo_state ''SECRET_KEY'' = app_config_get demo_state ''SECRET_KEY'' \<and>
   SETTINGS_set demo_state ''SECRET_KEY'' (Str ''new'')
     = app_config_set demo_state ''SECRET_KEY'' (Str ''new'')"
proof -
  from SETTINGS_is_app_config[OF demo_run] obtain a k c where
    g: "globals demo_state ''app'' = Some a" "globals demo_state ''Sockets'' = Some k"
       "globals demo_state ''SETTINGS'' = Some c" and
    fin: "keeps_attr (call demo k [a] []) a ''config'' \<and>
          keeps_attr (import_module demo ''xai.txtconv.route'') a ''config'' \<longrightarrow>
            getattr (heap demo_state) a ''config'' = Inr c \<and>
            (\<forall>key. SETTINGS_get demo_state key = app_config_get demo_state key) \<and>
            (\<forall>key x. SETTINGS_set demo_state key x = app_config_set demo_state key x) \<and>
            (\<forall>key x s'. SETTINGS_set demo_state key x = Inr s' \<longrightarrow>
               SETTINGS_get s' key = Inr x \<and> app_config_get s' key = Inr x)"
    by blast
  from g demo_globals have eq: "a = Ref 10" "k = Ref 3" "c = Ref 12" by simp_all
  from fin demo_keeps_attr(2,3) have
    "getattr (heap demo_state) (Ref 10) ''config'' = Inr (Ref 12) \<and>
     (\<forall>key. SETTINGS_get demo_state key = app_config_get demo_state key) \<and>
     (\<forall>key x. SETTINGS_set demo_state key x = app_config_set demo_state key x)"
    unfolding eq by blast
  with demo_run demo_globals(2) show ?thesis by blast
qed

end
